theory Spec2Isabelle
  imports Complex_Main "HOL-Library.AList"
begin

chapter \<open>Offline synchronisation of attendance records\<close>

text \<open>
  A model of the sync path of the attendance server: the conflict resolver
  (utils/syncResolver.js), the repository functions \<open>create\<close> and \<open>update\<close>
  (modules/attendance/attendance.repository.js) with the table they write
  (database/schema), and the batch loop \<open>syncOfflineRecords\<close>
  (modules/attendance/attendance.service.js). Exceptions and rejected promises are the
  left summand of a result; the store is passed through the loop. Logging and the audit
  trail are left out.
\<close>

section \<open>JavaScript values\<close>

text \<open>
  The sync endpoint receives parsed JSON. An incoming record is an object whose properties
  the code probes by name, so a record is an association list from property names to
  values (the keys of an object are distinct). Conventions of the model:

  \<^item> \<open>JTime t\<close> is a timestamp value (an ISO-8601 string on the wire, a \<open>Date\<close> object when
    it is read back from the store) that denotes the instant \<open>t\<close>, in milliseconds since
    the epoch. Both \<open>new Date(v).getTime()\<close> and the store read it as \<open>t\<close>.
  \<^item> \<open>JStr s\<close> is any other string: \<open>Date\<close> cannot parse it.
  \<^item> \<open>JNum q\<close> is a finite number, held as the rational it denotes.
  \<^item> Arrays are not modelled.
\<close>

datatype jsval =
    JUndefined
  | JNull
  | JBool bool
  | JNum rat
  | JStr string
  | JTime int
  | JObj "(string \<times> jsval) list"

text \<open>Truthiness, as \<open>!v\<close>, \<open>v && w\<close> and \<open>v || w\<close> test it.\<close>

fun truthy :: "jsval \<Rightarrow> bool" where
  "truthy JUndefined = False"
| "truthy JNull = False"
| "truthy (JBool b) = b"
| "truthy (JNum q) = (q \<noteq> 0)"
| "truthy (JStr s) = (s \<noteq> [])"
| "truthy (JTime t) = True"
| "truthy (JObj kvs) = True"

definition js_or :: "jsval \<Rightarrow> jsval \<Rightarrow> jsval" where
  \<comment> \<open>\<open>a || b\<close>\<close>
  "js_or a b = (if truthy a then a else b)"

definition nullish :: "jsval \<Rightarrow> bool" where
  \<comment> \<open>reading a property of \<open>null\<close> or \<open>undefined\<close> throws a TypeError\<close>
  "nullish v = (v = JUndefined \<or> v = JNull)"

fun js_get :: "jsval \<Rightarrow> string \<Rightarrow> jsval" where
  \<comment> \<open>\<open>v.k\<close> for a value that is not nullish; a missing property reads as \<open>undefined\<close>\<close>
  "js_get (JObj kvs) k = (case map_of kvs k of None \<Rightarrow> JUndefined | Some v \<Rightarrow> v)"
| "js_get v k = JUndefined"

fun js_spread_with :: "jsval \<Rightarrow> string \<Rightarrow> jsval \<Rightarrow> jsval" where
  \<comment> \<open>\<open>{...v, k: w}\<close>: the own properties of \<open>v\<close>, with \<open>k\<close> set to \<open>w\<close>\<close>
  "js_spread_with (JObj kvs) k w = JObj (AList.update k w kvs)"
| "js_spread_with v k w = JObj [(k, w)]"

fun is_number :: "jsval \<Rightarrow> bool" where
  \<comment> \<open>\<open>typeof v === 'number'\<close>\<close>
  "is_number (JNum q) = True"
| "is_number v = False"

definition trunc_rat :: "rat \<Rightarrow> int" where
  \<comment> \<open>rounding towards zero\<close>
  "trunc_rat q = (if 0 \<le> q then \<lfloor>q\<rfloor> else - \<lfloor>- q\<rfloor>)"

fun date_getTime :: "jsval \<Rightarrow> int option" where
  \<comment> \<open>\<open>new Date(v).getTime()\<close>; \<open>None\<close> is \<open>NaN\<close>\<close>
  "date_getTime JUndefined = None"
| "date_getTime JNull = Some 0"
| "date_getTime (JBool b) = Some (if b then 1 else 0)"
| "date_getTime (JNum q) = (if \<bar>q\<bar> \<le> 8640000000000000 then Some (trunc_rat q) else None)"
| "date_getTime (JStr s) = None"
| "date_getTime (JTime t) = Some t"
| "date_getTime (JObj kvs) = None"

definition abs_diff_gt :: "int option \<Rightarrow> int option \<Rightarrow> int \<Rightarrow> bool" where
  \<comment> \<open>\<open>Math.abs(a - b) > n\<close>; a comparison with \<open>NaN\<close> is false\<close>
  "abs_diff_gt a b n =
     (case a of None \<Rightarrow> False
      | Some x \<Rightarrow> (case b of None \<Rightarrow> False | Some y \<Rightarrow> n < \<bar>x - y\<bar>))"

section \<open>Stored attendance rows\<close>

text \<open>
  A row of the table \<open>attendance\<close> (database/schema, CREATE TABLE attendance), as the
  driver hands it to the code: the properties are the column names. The columns
  \<open>server_timestamp\<close>, \<open>created_at\<close> and \<open>updated_at\<close> are left out: the sync path neither
  writes them explicitly nor decides anything by them. Columns declared NOT NULL have no
  \<open>option\<close>. The column \<open>id\<close> is \<open>row_id\<close> and the column \<open>synced\<close> is \<open>synced_flag\<close> here.
\<close>

record row =
  row_id :: nat
  user_id :: string
  facility_id :: string
  clock_in :: int
  clock_out :: "int option"
  clock_in_latitude :: "rat option"
  clock_in_longitude :: "rat option"
  clock_out_latitude :: "rat option"
  clock_out_longitude :: "rat option"
  "notes" :: "string option"
  status :: "string option"
  synced_flag :: "bool option"
  client_timestamp :: "int option"
  device_id :: "string option"
  sync_version :: "int option"
  conflict_resolution_strategy :: "string option"
  metadata :: "jsval option"

definition js_of_int_col :: "int option \<Rightarrow> jsval" where
  \<comment> \<open>an INTEGER column as the driver returns it: a number, or \<open>null\<close>\<close>
  "js_of_int_col c = (case c of None \<Rightarrow> JNull | Some n \<Rightarrow> JNum (of_int n))"

section \<open>Errors\<close>

datatype pg_failure =
    NotNullViolation string
  | CheckViolation string
  | ForeignKeyViolation string
  | InvalidInput string
  | NumericOutOfRange string
  | ValueTooLong string

datatype exn =
    TypeError
  | Error string
  | DatabaseError pg_failure

datatype message =
    Text string
  | MessageOf exn

section \<open>utils/syncResolver.js\<close>

datatype resolved_record = ClientRecord jsval | ServerRecord row | NoRecord

record resolution =
  resolved :: resolved_record
  winner :: string
  reason :: string
  res_clientRecord :: "jsval option"
  res_serverRecord :: "row option"

definition resolveConflict :: "jsval \<Rightarrow> row \<Rightarrow> jsval \<Rightarrow> exn + resolution" where
  \<comment> \<open>the log call reads \<open>clientRecord.client_timestamp\<close> first; the parameter defaults to
     \<open>'server_wins'\<close> when it is \<open>undefined\<close>\<close>
  "resolveConflict clientRecord serverRecord strategy0 =
     (let strategy = (if strategy0 = JUndefined then JStr ''server_wins'' else strategy0) in
      if nullish clientRecord then Inl TypeError
      else if strategy = JStr ''client_wins'' then
        Inr \<lparr>resolved = ClientRecord clientRecord, winner = ''client'',
             reason = ''Client-wins strategy applied'',
             res_clientRecord = None, res_serverRecord = None\<rparr>
      else if strategy = JStr ''server_wins'' then
        Inr \<lparr>resolved = ServerRecord serverRecord, winner = ''server'',
             reason = ''Server-wins strategy applied'',
             res_clientRecord = None, res_serverRecord = None\<rparr>
      else if strategy = JStr ''manual'' then
        Inr \<lparr>resolved = NoRecord, winner = ''manual'',
             reason = ''Manual resolution required'',
             res_clientRecord = Some clientRecord, res_serverRecord = Some serverRecord\<rparr>
      else
        Inr \<lparr>resolved = ServerRecord serverRecord, winner = ''server'',
             reason = ''Unknown strategy, defaulted to server_wins'',
             res_clientRecord = None, res_serverRecord = None\<rparr>)"

definition hasConflict :: "jsval \<Rightarrow> row option \<Rightarrow> exn + bool" where
  "hasConflict clientRecord serverRecord =
     (case serverRecord of
        None \<Rightarrow> Inr False
      | Some s \<Rightarrow>
          if nullish clientRecord then Inl TypeError
          else if js_get clientRecord ''sync_version'' \<noteq> js_of_int_col (sync_version s)
          then Inr True
          else
            let clientTime = date_getTime (js_get clientRecord ''clock_in'');
                serverTime = Some (clock_in s)
            in if abs_diff_gt clientTime serverTime 60000 then Inr True
               else if truthy (js_get clientRecord ''clock_out'') \<and> clock_out s \<noteq> None then
                 (let clientOutTime = date_getTime (js_get clientRecord ''clock_out'');
                      serverOutTime = clock_out s
                  in if abs_diff_gt clientOutTime serverOutTime 60000 then Inr True
                     else Inr False)
               else Inr False)"

record validation =
  isValid :: bool
  validation_errors :: "string list"

definition validStrategies :: "jsval list" where
  "validStrategies = [JStr ''client_wins'', JStr ''server_wins'', JStr ''manual'']"

definition validateSyncMetadata :: "jsval \<Rightarrow> exn + validation" where
  "validateSyncMetadata record =
     (if nullish record then Inl TypeError
      else
        let errors =
              (if \<not> truthy (js_get record ''device_id'') then [''Missing device_id''] else [])
            @ (if \<not> truthy (js_get record ''client_timestamp'')
               then [''Missing client_timestamp''] else [])
            @ (if truthy (js_get record ''sync_version'')
                  \<and> \<not> is_number (js_get record ''sync_version'')
               then [''Invalid sync_version type''] else [])
            @ (if truthy (js_get record ''conflict_resolution_strategy'')
                  \<and> js_get record ''conflict_resolution_strategy'' \<notin> set validStrategies
               then [''Invalid conflict_resolution_strategy''] else [])
        in Inr \<lparr>isValid = (errors = []), validation_errors = errors\<rparr>)"

record synced_entry =
  entry_id :: nat
  action :: string
  entry_resolution :: "string option"

record conflict_entry =
  conflict_record :: jsval
  existingRecord :: row
  conflict_resolution :: resolution

text \<open>
  An entry of the errors bucket, \<open>{record, errors}\<close>: the field errors of the validation
  (\<open>Text\<close>), or the message of the exception that was caught (\<open>MessageOf\<close>).
\<close>

record error_entry =
  error_record :: jsval
  error_messages :: "message list"

record sync_data =
  data_synced :: "synced_entry list"
  data_conflicts :: "conflict_entry list"
  data_errors :: "error_entry list"

text \<open>
  The response object. Its counters \<open>synced\<close>, \<open>conflicts\<close> and \<open>errors\<close> are the fields
  \<open>synced_count\<close>, \<open>conflicts_count\<close> and \<open>errors_count\<close>; the arrays under \<open>data\<close> are
  \<open>data_synced\<close>, \<open>data_conflicts\<close> and \<open>data_errors\<close>.
\<close>

record sync_response =
  success :: bool
  synced_count :: nat
  conflicts_count :: nat
  errors_count :: nat
  timestamp :: int
  data :: sync_data

definition createSyncResponse ::
  "int \<Rightarrow> synced_entry list \<Rightarrow> conflict_entry list \<Rightarrow> error_entry list \<Rightarrow> sync_response" where
  \<comment> \<open>the first argument is the reading of the server clock that \<open>new Date()\<close> returns\<close>
  "createSyncResponse now syncedRecords conflicts errors =
     \<lparr>success = True,
      synced_count = length syncedRecords,
      conflicts_count = length conflicts,
      errors_count = length errors,
      timestamp = now,
      data = \<lparr>data_synced = syncedRecords, data_conflicts = conflicts, data_errors = errors\<rparr>\<rparr>"

section \<open>The store\<close>

text \<open>
  The state of the database that the sync path reads and writes: the rows of \<open>attendance\<close>
  in heap order, the ids present in \<open>facilities\<close> and \<open>users\<close> (the targets of the foreign
  keys of \<open>attendance\<close>), and the reading of the server clock.
\<close>

record db =
  attendance :: "row list"
  facilities :: "string list"
  users :: "string list"
  clock :: int

definition await :: "exn + 'a \<Rightarrow> ('a \<Rightarrow> exn + 'b) \<Rightarrow> exn + 'b" where
  \<comment> \<open>\<open>const x = await m; ...\<close>: a rejected promise throws at the \<open>await\<close>\<close>
  "await m f = (case m of Inl e \<Rightarrow> Inl e | Inr x \<Rightarrow> f x)"

subsection \<open>Binding parameters\<close>

text \<open>
  The driver sends \<open>null\<close> for \<open>undefined\<close> and \<open>null\<close>. Every other parameter is read by the
  input function of the type of its column; the first argument is the column, for the
  error. In a column of text a string is always a \<open>JStr\<close>. Ids are opaque strings: the
  check of the syntax of a UUID is left to the foreign key.

  A value whose JSON type is not the one of the column (a number for a VARCHAR, a string
  for an INTEGER) is reported as \<open>InvalidInput\<close>. PostgreSQL reads some of these from their
  text, such as the string \<open>7\<close> for an INTEGER; such records are beyond this model of the
  binding.
\<close>

fun pg_text :: "string \<Rightarrow> jsval \<Rightarrow> exn + string option" where
  "pg_text c JUndefined = Inr None"
| "pg_text c JNull = Inr None"
| "pg_text c (JStr s) = Inr (Some s)"
| "pg_text c v = Inl (DatabaseError (InvalidInput c))"

definition pg_varchar :: "nat \<Rightarrow> string \<Rightarrow> jsval \<Rightarrow> exn + string option" where
  \<comment> \<open>VARCHAR(n), when a value is stored\<close>
  "pg_varchar n c v =
     await (pg_text c v) (\<lambda>t.
       case t of
         None \<Rightarrow> Inr None
       | Some s \<Rightarrow> if length s \<le> n then Inr (Some s) else Inl (DatabaseError (ValueTooLong c)))"

fun pg_timestamptz :: "string \<Rightarrow> jsval \<Rightarrow> exn + int option" where
  "pg_timestamptz c JUndefined = Inr None"
| "pg_timestamptz c JNull = Inr None"
| "pg_timestamptz c (JTime t) = Inr (Some t)"
| "pg_timestamptz c v = Inl (DatabaseError (InvalidInput c))"

fun pg_integer :: "string \<Rightarrow> jsval \<Rightarrow> exn + int option" where
  "pg_integer c JUndefined = Inr None"
| "pg_integer c JNull = Inr None"
| "pg_integer c (JNum q) =
     (if of_int \<lfloor>q\<rfloor> \<noteq> q then Inl (DatabaseError (InvalidInput c))
      else if - 2147483648 \<le> \<lfloor>q\<rfloor> \<and> \<lfloor>q\<rfloor> \<le> 2147483647 then Inr (Some \<lfloor>q\<rfloor>)
      else Inl (DatabaseError (NumericOutOfRange c)))"
| "pg_integer c v = Inl (DatabaseError (InvalidInput c))"

definition round_half_away :: "rat \<Rightarrow> int" where
  "round_half_away q = (if 0 \<le> q then \<lfloor>q + 1 / 2\<rfloor> else - \<lfloor>- q + 1 / 2\<rfloor>)"

definition round_scale_8 :: "rat \<Rightarrow> rat" where
  \<comment> \<open>rounding to the eight decimal places of DECIMAL(10, 8) and DECIMAL(11, 8)\<close>
  "round_scale_8 q = of_int (round_half_away (q * 100000000)) / 100000000"

fun pg_decimal :: "rat \<Rightarrow> string \<Rightarrow> jsval \<Rightarrow> exn + rat option" where
  \<comment> \<open>the first argument bounds the integer part: 100 for DECIMAL(10, 8), 1000 for
     DECIMAL(11, 8)\<close>
  "pg_decimal b c JUndefined = Inr None"
| "pg_decimal b c JNull = Inr None"
| "pg_decimal b c (JNum q) =
     (if \<bar>round_scale_8 q\<bar> < b then Inr (Some (round_scale_8 q))
      else Inl (DatabaseError (NumericOutOfRange c)))"
| "pg_decimal b c v = Inl (DatabaseError (InvalidInput c))"

fun pg_boolean :: "string \<Rightarrow> jsval \<Rightarrow> exn + bool option" where
  "pg_boolean c JUndefined = Inr None"
| "pg_boolean c JNull = Inr None"
| "pg_boolean c (JBool b) = Inr (Some b)"
| "pg_boolean c v = Inl (DatabaseError (InvalidInput c))"

fun pg_jsonb :: "string \<Rightarrow> jsval \<Rightarrow> exn + jsval option" where
  "pg_jsonb c JUndefined = Inr None"
| "pg_jsonb c JNull = Inr None"
| "pg_jsonb c (JObj kvs) = Inr (Some (JObj kvs))"
| "pg_jsonb c (JNum q) = Inr (Some (JNum q))"
| "pg_jsonb c (JBool b) = Inr (Some (JBool b))"
| "pg_jsonb c v = Inl (DatabaseError (InvalidInput c))"

subsection \<open>The constraints of the table\<close>

definition not_null :: "string \<Rightarrow> 'a option \<Rightarrow> exn + 'a" where
  "not_null c v = (case v of None \<Rightarrow> Inl (DatabaseError (NotNullViolation c)) | Some x \<Rightarrow> Inr x)"

definition status_check :: "row \<Rightarrow> bool" where
  \<comment> \<open>a CHECK passes on NULL\<close>
  "status_check r =
     (case status r of None \<Rightarrow> True
      | Some s \<Rightarrow> s \<in> set [''clocked_in'', ''clocked_out'', ''incomplete''])"

definition conflict_resolution_strategy_check :: "row \<Rightarrow> bool" where
  "conflict_resolution_strategy_check r =
     (case conflict_resolution_strategy r of None \<Rightarrow> True
      | Some s \<Rightarrow> s \<in> set [''client_wins'', ''server_wins'', ''manual''])"

definition valid_clock_times :: "row \<Rightarrow> bool" where
  "valid_clock_times r = (case clock_out r of None \<Rightarrow> True | Some t \<Rightarrow> clock_in r < t)"

definition valid_coords :: "rat option \<Rightarrow> rat option \<Rightarrow> bool" where
  "valid_coords lat lng =
     (case lat of
        None \<Rightarrow> lng = None
      | Some a \<Rightarrow>
          (case lng of
             None \<Rightarrow> False
           | Some b \<Rightarrow> - 90 \<le> a \<and> a \<le> 90 \<and> - 180 \<le> b \<and> b \<le> 180))"

definition valid_clock_in_coords :: "row \<Rightarrow> bool" where
  "valid_clock_in_coords r = valid_coords (clock_in_latitude r) (clock_in_longitude r)"

definition valid_clock_out_coords :: "row \<Rightarrow> bool" where
  "valid_clock_out_coords r = valid_coords (clock_out_latitude r) (clock_out_longitude r)"

definition check_constraints :: "row \<Rightarrow> exn + unit" where
  "check_constraints r =
     (if \<not> conflict_resolution_strategy_check r
      then Inl (DatabaseError (CheckViolation ''attendance_conflict_resolution_strategy_check''))
      else if \<not> status_check r
      then Inl (DatabaseError (CheckViolation ''attendance_status_check''))
      else if \<not> valid_clock_in_coords r
      then Inl (DatabaseError (CheckViolation ''valid_clock_in_coords''))
      else if \<not> valid_clock_out_coords r
      then Inl (DatabaseError (CheckViolation ''valid_clock_out_coords''))
      else if \<not> valid_clock_times r
      then Inl (DatabaseError (CheckViolation ''valid_clock_times''))
      else Inr ())"

definition check_foreign_keys :: "db \<Rightarrow> row \<Rightarrow> exn + unit" where
  "check_foreign_keys d r =
     (if user_id r \<notin> set (users d)
      then Inl (DatabaseError (ForeignKeyViolation ''attendance_user_id_fkey''))
      else if facility_id r \<notin> set (facilities d)
      then Inl (DatabaseError (ForeignKeyViolation ''attendance_facility_id_fkey''))
      else Inr ())"

definition fresh_id :: "row list \<Rightarrow> nat" where
  \<comment> \<open>\<open>uuid_generate_v4()\<close>: an id that no row has\<close>
  "fresh_id rs = Suc (fold max (map row_id rs) 0)"

section \<open>modules/attendance/attendance.repository.js\<close>

text \<open>
  \<open>create\<close>: the INSERT names thirteen columns. It names none of \<open>clock_out\<close>,
  \<open>clock_out_latitude\<close> and \<open>clock_out_longitude\<close>, which take their default, NULL. The
  parameters are bound first, then the NOT NULL and CHECK constraints are tested, then
  the foreign keys; the statement returns the new row.
\<close>

definition create :: "jsval \<Rightarrow> db \<Rightarrow> exn + (row \<times> db)" where
  "create attendanceData d =
     await (pg_text ''user_id'' (js_get attendanceData ''userId'')) (\<lambda>p1.
     await (pg_text ''facility_id'' (js_get attendanceData ''facilityId'')) (\<lambda>p2.
     await (pg_timestamptz ''clock_in''
              (js_or (js_get attendanceData ''clockIn'') (JTime (clock d)))) (\<lambda>p3.
     await (pg_decimal 100 ''clock_in_latitude''
              (js_or (js_get attendanceData ''clockInLatitude'') JNull)) (\<lambda>p4.
     await (pg_decimal 1000 ''clock_in_longitude''
              (js_or (js_get attendanceData ''clockInLongitude'') JNull)) (\<lambda>p5.
     await (pg_text ''notes'' (js_or (js_get attendanceData ''notes'') JNull)) (\<lambda>p6.
     await (pg_varchar 50 ''status'' (JStr ''clocked_in'')) (\<lambda>p7.
     await (pg_boolean ''synced'' (js_or (js_get attendanceData ''synced'') (JBool True))) (\<lambda>p8.
     await (pg_timestamptz ''client_timestamp''
              (js_or (js_get attendanceData ''clientTimestamp'') JNull)) (\<lambda>p9.
     await (pg_varchar 255 ''device_id''
              (js_or (js_get attendanceData ''deviceId'') JNull)) (\<lambda>p10.
     await (pg_integer ''sync_version''
              (js_or (js_get attendanceData ''syncVersion'') (JNum 1))) (\<lambda>p11.
     await (pg_varchar 50 ''conflict_resolution_strategy''
              (js_or (js_get attendanceData ''conflictResolutionStrategy'')
                     (JStr ''server_wins''))) (\<lambda>p12.
     await (pg_jsonb ''metadata'' (js_or (js_get attendanceData ''metadata'') (JObj []))) (\<lambda>p13.
     await (not_null ''user_id'' p1) (\<lambda>uid.
     await (not_null ''facility_id'' p2) (\<lambda>fid.
     await (not_null ''clock_in'' p3) (\<lambda>cin.
       let r = \<lparr>row_id = fresh_id (attendance d),
                user_id = uid,
                facility_id = fid,
                clock_in = cin,
                clock_out = None,
                clock_in_latitude = p4,
                clock_in_longitude = p5,
                clock_out_latitude = None,
                clock_out_longitude = None,
                notes = p6,
                status = p7,
                synced_flag = p8,
                client_timestamp = p9,
                device_id = p10,
                sync_version = p11,
                conflict_resolution_strategy = p12,
                metadata = p13\<rparr>
       in await (check_constraints r) (\<lambda>_.
          await (check_foreign_keys d r) (\<lambda>_.
            Inr (r, d\<lparr>attendance := attendance d @ [r]\<rparr>)))))))))))))))))))"

text \<open>
  \<open>update\<close>: the SET clause takes the keys of \<open>updates\<close> that are in \<open>allowedFields\<close> and
  whose value is not \<open>undefined\<close>. \<open>set_param\<close> binds the parameter of one column of the
  clause (no result when the clause does not assign the column), \<open>assigned\<close> is the value
  of the column afterwards, and \<open>update_attendance\<close> is the statement
  \<open>UPDATE attendance SET ... WHERE id = $n RETURNING *\<close>, whose first returned row, if any,
  is the result of \<open>update\<close>.
\<close>

definition allowedFields :: "string list" where
  "allowedFields =
     [''clock_out'', ''clock_out_latitude'', ''clock_out_longitude'',
      ''notes'', ''status'', ''synced'', ''sync_version'', ''metadata'']"

fun object_keys :: "jsval \<Rightarrow> string list" where
  "object_keys (JObj kvs) = map fst kvs"
| "object_keys v = []"

definition set_param ::
  "(string \<times> jsval) list \<Rightarrow> string \<Rightarrow> (string \<Rightarrow> jsval \<Rightarrow> exn + 'a option)
     \<Rightarrow> exn + 'a option option" where
  "set_param sets c input =
     (case map_of sets c of
        None \<Rightarrow> Inr None
      | Some v \<Rightarrow> await (input c v) (\<lambda>x. Inr (Some x)))"

definition assigned :: "'a option option \<Rightarrow> 'a option \<Rightarrow> 'a option" where
  "assigned p old = (case p of None \<Rightarrow> old | Some x \<Rightarrow> x)"

definition set_clause :: "(string \<times> jsval) list \<Rightarrow> exn + (row \<Rightarrow> row)" where
  "set_clause sets =
     await (set_param sets ''clock_out'' pg_timestamptz) (\<lambda>a1.
     await (set_param sets ''clock_out_latitude'' (pg_decimal 100)) (\<lambda>a2.
     await (set_param sets ''clock_out_longitude'' (pg_decimal 1000)) (\<lambda>a3.
     await (set_param sets ''notes'' pg_text) (\<lambda>a4.
     await (set_param sets ''status'' (pg_varchar 50)) (\<lambda>a5.
     await (set_param sets ''synced'' pg_boolean) (\<lambda>a6.
     await (set_param sets ''sync_version'' pg_integer) (\<lambda>a7.
     await (set_param sets ''metadata'' pg_jsonb) (\<lambda>a8.
       Inr (\<lambda>r. r\<lparr>clock_out := assigned a1 (clock_out r),
                    clock_out_latitude := assigned a2 (clock_out_latitude r),
                    clock_out_longitude := assigned a3 (clock_out_longitude r),
                    notes := assigned a4 (notes r),
                    status := assigned a5 (status r),
                    synced_flag := assigned a6 (synced_flag r),
                    sync_version := assigned a7 (sync_version r),
                    metadata := assigned a8 (metadata r)\<rparr>)))))))))"

fun check_rows :: "row list \<Rightarrow> exn + unit" where
  "check_rows [] = Inr ()"
| "check_rows (r # rs) = await (check_constraints r) (\<lambda>_. check_rows rs)"

definition update_attendance ::
  "(string \<times> jsval) list \<Rightarrow> nat \<Rightarrow> db \<Rightarrow> exn + (row option \<times> db)" where
  "update_attendance sets attendanceId d =
     await (set_clause sets) (\<lambda>f.
       let rows = map (\<lambda>r. if row_id r = attendanceId then f r else r) (attendance d) in
       await (check_rows (filter (\<lambda>r. row_id r = attendanceId) rows)) (\<lambda>_.
         Inr (find (\<lambda>r. row_id r = attendanceId) rows, d\<lparr>attendance := rows\<rparr>)))"

definition update :: "nat \<Rightarrow> jsval \<Rightarrow> db \<Rightarrow> exn + (row option \<times> db)" where
  "update attendanceId updates d =
     (let fields = filter (\<lambda>key. key \<in> set allowedFields \<and> js_get updates key \<noteq> JUndefined)
                     (object_keys updates)
      in if fields = [] then Inl (Error ''No valid fields to update'')
         else update_attendance (map (\<lambda>key. (key, js_get updates key)) fields) attendanceId d)"

section \<open>modules/attendance/attendance.service.js\<close>

text \<open>
  The lookup of \<open>syncOfflineRecords\<close>:
  \<open>SELECT * FROM attendance WHERE device_id = $1 AND client_timestamp = $2\<close>.
  A comparison with NULL selects no row.
\<close>

definition select_by_device_and_client_timestamp ::
  "db \<Rightarrow> jsval \<Rightarrow> jsval \<Rightarrow> exn + row list" where
  "select_by_device_and_client_timestamp d p1 p2 =
     await (pg_text ''device_id'' p1) (\<lambda>dev.
     await (pg_timestamptz ''client_timestamp'' p2) (\<lambda>ts.
       Inr (filter (\<lambda>r. dev \<noteq> None \<and> device_id r = dev \<and> ts \<noteq> None \<and> client_timestamp r = ts)
              (attendance d))))"

text \<open>
  The state of the loop: the store and the three arrays \<open>synced\<close>, \<open>conflicts\<close> and
  \<open>errors\<close> of the function.
\<close>

record loop_state =
  store :: db
  synced :: "synced_entry list"
  conflicts :: "conflict_entry list"
  errors :: "error_entry list"

definition next_version :: "int option \<Rightarrow> jsval" where
  \<comment> \<open>\<open>existingRecord.sync_version + 1\<close>; \<open>null + 1\<close> is 1\<close>
  "next_version v = JNum (of_int ((case v of None \<Rightarrow> 0 | Some n \<Rightarrow> n) + 1))"

definition attendanceData_of :: "string \<Rightarrow> jsval \<Rightarrow> jsval" where
  \<comment> \<open>the object that the service passes to \<open>create\<close>\<close>
  "attendanceData_of userId record =
     JObj [(''userId'', JStr userId),
           (''facilityId'', js_get record ''facilityId''),
           (''clockIn'', js_get record ''clockIn''),
           (''clockOut'', js_or (js_get record ''clockOut'') JNull),
           (''clockInLatitude'', js_get record ''clockInLatitude''),
           (''clockInLongitude'', js_get record ''clockInLongitude''),
           (''clockOutLatitude'', js_get record ''clockOutLatitude''),
           (''clockOutLongitude'', js_get record ''clockOutLongitude''),
           (''notes'', js_get record ''notes''),
           (''deviceId'', js_get record ''deviceId''),
           (''clientTimestamp'', js_get record ''clientTimestamp''),
           (''syncVersion'', js_or (js_get record ''syncVersion'') (JNum 1)),
           (''conflictResolutionStrategy'', js_get record ''conflictResolutionStrategy''),
           (''metadata'', js_get record ''metadata''),
           (''synced'', JBool True)]"

text \<open>The body of the \<open>try\<close> block, for one record.\<close>

definition try_record :: "string \<Rightarrow> jsval \<Rightarrow> loop_state \<Rightarrow> exn + loop_state" where
  "try_record userId record st =
     await (validateSyncMetadata record) (\<lambda>validation.
       if \<not> isValid validation then
         Inr (st\<lparr>errors := errors st @
                [\<lparr>error_record = record,
                  error_messages = map Text (validation_errors validation)\<rparr>]\<rparr>)
       else
         await (select_by_device_and_client_timestamp (store st)
                  (js_get record ''deviceId'') (js_get record ''clientTimestamp'')) (\<lambda>rows.
           case rows of
             existing # _ \<Rightarrow>
               await (hasConflict record (Some existing)) (\<lambda>conflict.
                 if conflict then
                   await (resolveConflict record existing
                            (js_or (js_get record ''conflictResolutionStrategy'')
                                   (JStr ''server_wins''))) (\<lambda>res.
                     if winner res = ''manual'' then
                       Inr (st\<lparr>conflicts := conflicts st @
                              [\<lparr>conflict_record = record, existingRecord = existing,
                                conflict_resolution = res\<rparr>]\<rparr>)
                     else
                       await (if winner res = ''client''
                              then await (update (row_id existing)
                                            (js_spread_with record ''sync_version''
                                               (next_version (sync_version existing)))
                                            (store st)) (\<lambda>u. Inr (snd u))
                              else Inr (store st)) (\<lambda>d.
                         Inr (st\<lparr>store := d,
                                 synced := synced st @
                                   [\<lparr>entry_id = row_id existing, action = ''updated'',
                                     entry_resolution = Some (winner res)\<rparr>]\<rparr>)))
                 else
                   Inr (st\<lparr>synced := synced st @
                          [\<lparr>entry_id = row_id existing, action = ''no_change'',
                            entry_resolution = None\<rparr>]\<rparr>))
           | [] \<Rightarrow>
               await (create (attendanceData_of userId record) (store st)) (\<lambda>c.
                 Inr (st\<lparr>store := snd c,
                         synced := synced st @
                           [\<lparr>entry_id = row_id (fst c), action = ''created'',
                             entry_resolution = None\<rparr>]\<rparr>))))"

text \<open>One turn of the loop: the \<open>try\<close> block and its \<open>catch\<close>.\<close>

definition process_record :: "string \<Rightarrow> jsval \<Rightarrow> loop_state \<Rightarrow> loop_state" where
  "process_record userId record st =
     (case try_record userId record st of
        Inr st' \<Rightarrow> st'
      | Inl error \<Rightarrow>
          st\<lparr>errors := errors st @
               [\<lparr>error_record = record, error_messages = [MessageOf error]\<rparr>]\<rparr>)"

definition syncOfflineRecords :: "string \<Rightarrow> jsval list \<Rightarrow> db \<Rightarrow> sync_response \<times> db" where
  "syncOfflineRecords userId records d =
     (let st = fold (process_record userId) records
                 \<lparr>store = d, synced = [], conflicts = [], errors = []\<rparr>
      in (createSyncResponse (clock (store st)) (synced st) (conflicts st) (errors st),
          store st))"

section \<open>Path conditions, the dedup key and the columns that \<open>update\<close> keeps\<close>

text \<open>
  \<open>conflict_detected st record existing\<close>: the record passes the validation, the lookup
  returns \<open>existing\<close> as its first row, and \<open>hasConflict\<close> answers true: the turn of the loop
  reaches \<open>resolveConflict\<close>.
\<close>

definition conflict_detected :: "loop_state \<Rightarrow> jsval \<Rightarrow> row \<Rightarrow> bool" where
  "conflict_detected st record existing =
     ((case validateSyncMetadata record of Inl e \<Rightarrow> False | Inr v \<Rightarrow> isValid v)
      \<and> (case select_by_device_and_client_timestamp (store st)
                 (js_get record ''deviceId'') (js_get record ''clientTimestamp'') of
            Inl e \<Rightarrow> False
          | Inr rows \<Rightarrow> (case rows of [] \<Rightarrow> False | r # rs \<Rightarrow> r = existing))
      \<and> hasConflict record (Some existing) = Inr True)"

text \<open>
  \<open>no_match st record\<close>: the record passes the validation and the lookup returns no row:
  the turn of the loop reaches \<open>create\<close>.
\<close>

definition no_match :: "loop_state \<Rightarrow> jsval \<Rightarrow> bool" where
  "no_match st record =
     ((case validateSyncMetadata record of Inl e \<Rightarrow> False | Inr v \<Rightarrow> isValid v)
      \<and> (case select_by_device_and_client_timestamp (store st)
                 (js_get record ''deviceId'') (js_get record ''clientTimestamp'') of
            Inl e \<Rightarrow> False
          | Inr rows \<Rightarrow> rows = []))"

text \<open>
  The dedup key of a stored row is its pair of \<open>device_id\<close> and \<open>client_timestamp\<close>; a row
  in which one of the two is NULL has no key (the lookup never selects it). The table is
  \<open>dedup_unique\<close> when no two of its rows have the same key.
\<close>

definition dedup_key :: "row \<Rightarrow> (string \<times> int) option" where
  "dedup_key r =
     (case device_id r of
        None \<Rightarrow> None
      | Some dev \<Rightarrow> (case client_timestamp r of None \<Rightarrow> None | Some ts \<Rightarrow> Some (dev, ts)))"

definition dedup_keys :: "row list \<Rightarrow> (string \<times> int) list" where
  "dedup_keys rs = concat (map (\<lambda>r. case dedup_key r of None \<Rightarrow> [] | Some k \<Rightarrow> [k]) rs)"

definition dedup_unique :: "row list \<Rightarrow> bool" where
  "dedup_unique rs = distinct (dedup_keys rs)"


section \<open>Example data\<close>

text \<open>
  The stored record \<open>E\<close> of the strategy scenarios: version 1, clocked in at
  2024-01-01T08:00:00Z (\<open>T\<close> = 1704096000000), not clocked out.
\<close>

definition ex_existing :: row where
  "ex_existing =
     \<lparr>row_id = 1, user_id = ''u1'', facility_id = ''f1'', clock_in = 1704096000000,
      clock_out = None, clock_in_latitude = None, clock_in_longitude = None,
      clock_out_latitude = None, clock_out_longitude = None, notes = None,
      status = Some ''clocked_in'', synced_flag = Some True,
      client_timestamp = Some 1704096000000, device_id = Some ''d1'',
      sync_version = Some 1, conflict_resolution_strategy = Some ''server_wins'',
      metadata = Some (JObj [])\<rparr>"

definition ex_empty_store :: db where
  "ex_empty_store =
     \<lparr>attendance = [], facilities = [''f1''], users = [''u1''], clock = 1704099600000\<rparr>"

definition ex_store :: db where
  "ex_store = ex_empty_store\<lparr>attendance := [ex_existing]\<rparr>"

definition ex_start :: loop_state where
  "ex_start = \<lparr>store = ex_store, synced = [], conflicts = [], errors = []\<rparr>"

text \<open>
  The incoming record \<open>C\<close> of the strategy scenarios: version 2, clocked in at \<open>T\<close> + 120 s,
  with the key of \<open>E\<close>. It carries every property under both spellings, the one of the
  wire format and the one of the columns, so that it passes the validation and is found
  by the lookup. Its strategy is the argument.
\<close>

definition ex_incoming :: "string \<Rightarrow> jsval" where
  "ex_incoming strategy =
     JObj [(''facilityId'', JStr ''f1''),
           (''clockIn'', JTime 1704096120000), (''clock_in'', JTime 1704096120000),
           (''deviceId'', JStr ''d1''), (''device_id'', JStr ''d1''),
           (''clientTimestamp'', JTime 1704096000000),
           (''client_timestamp'', JTime 1704096000000),
           (''syncVersion'', JNum 2), (''sync_version'', JNum 2),
           (''conflictResolutionStrategy'', JStr strategy)]"

text \<open>
  Records in the wire format of the sync request (camelCase properties only), as the
  API documentation shows them: \<open>ex_wire dev\<close> is a complete record of the device \<open>dev\<close>,
  and \<open>ex_wire_no_device\<close> lacks \<open>deviceId\<close>.
\<close>

definition ex_wire :: "string \<Rightarrow> jsval" where
  "ex_wire dev =
     JObj [(''facilityId'', JStr ''f1''),
           (''clockIn'', JTime 1704096000000),
           (''clockOut'', JTime 1704128400000),
           (''clockInLatitude'', JNum (- 19536 / 10000)),
           (''clockInLongitude'', JNum (300606 / 10000)),
           (''deviceId'', JStr dev),
           (''clientTimestamp'', JTime 1704096000000),
           (''syncVersion'', JNum 1),
           (''conflictResolutionStrategy'', JStr ''server_wins'')]"

definition ex_wire_no_device :: jsval where
  "ex_wire_no_device =
     JObj [(''facilityId'', JStr ''f1''),
           (''clockIn'', JTime 1704096000000),
           (''clientTimestamp'', JTime 1704096000000),
           (''syncVersion'', JNum 1),
           (''conflictResolutionStrategy'', JStr ''server_wins'')]"

text \<open>
  A client record and a stored row for \<open>hasConflict\<close> that agree on the version and on
  the clock-in; only the client record has a clock-out.
\<close>

definition ex_clocked_out :: jsval where
  "ex_clocked_out =
     JObj [(''device_id'', JStr ''d1''), (''client_timestamp'', JTime 1704096000000),
           (''sync_version'', JNum 1), (''clock_in'', JTime 1704096000000),
           (''clock_out'', JTime 1704128400000)]"

text \<open>
  A new record that carries a clock-out and its coordinates, with the sync metadata
  under both spellings.
\<close>

definition ex_new_record :: jsval where
  "ex_new_record =
     JObj [(''facilityId'', JStr ''f1''),
           (''clockIn'', JTime 1704096000000),
           (''clockOut'', JTime 1704128400000),
           (''clockInLatitude'', JNum (- 19536 / 10000)),
           (''clockInLongitude'', JNum (300606 / 10000)),
           (''clockOutLatitude'', JNum (- 19540 / 10000)),
           (''clockOutLongitude'', JNum (300610 / 10000)),
           (''deviceId'', JStr ''d2''), (''device_id'', JStr ''d2''),
           (''clientTimestamp'', JTime 1704096000000),
           (''client_timestamp'', JTime 1704096000000),
           (''syncVersion'', JNum 1), (''sync_version'', JNum 1)]"

definition ex_created :: row where
  "ex_created =
     \<lparr>row_id = 2, user_id = ''u1'', facility_id = ''f1'', clock_in = 1704096000000,
      clock_out = None, clock_in_latitude = Some (- 19536 / 10000),
      clock_in_longitude = Some (300606 / 10000),
      clock_out_latitude = None, clock_out_longitude = None, notes = None,
      status = Some ''clocked_in'', synced_flag = Some True,
      client_timestamp = Some 1704096000000, device_id = Some ''d2'',
      sync_version = Some 1, conflict_resolution_strategy = Some ''server_wins'',
      metadata = Some (JObj [])\<rparr>"


section \<open>Awaited results\<close>

lemma await_Inr_iff: "await m f = Inr y \<longleftrightarrow> (\<exists>x. m = Inr x \<and> f x = Inr y)"
  by (cases m) (simp_all add: await_def)

lemma await_Inr [simp]: "await (Inr x) f = f x"
  by (simp add: await_def)

lemma await_Inl [simp]: "await (Inl e) f = Inl e"
  by (simp add: await_def)


lemma await_InrE:
  assumes "await m f = Inr y"
  obtains x where "m = Inr x" and "f x = Inr y"
  using assms by (auto simp: await_Inr_iff)

section \<open>The conflict branch\<close>

lemma conflict_detectedD:
  assumes "conflict_detected st record existing"
  shows "\<exists>v. validateSyncMetadata record = Inr v \<and> isValid v"
    and "\<exists>rest. select_by_device_and_client_timestamp (store st)
                 (js_get record ''deviceId'') (js_get record ''clientTimestamp'')
               = Inr (existing # rest)"
    and "hasConflict record (Some existing) = Inr True"
    and "\<not> nullish record"
  using assms
  by (auto simp: conflict_detected_def validateSyncMetadata_def
           split: sum.splits list.splits if_splits)

lemma try_record_conflict:
  assumes "conflict_detected st record existing"
  shows "try_record userId record st =
     await (resolveConflict record existing
              (js_or (js_get record ''conflictResolutionStrategy'') (JStr ''server_wins'')))
       (\<lambda>res.
         if winner res = ''manual'' then
           Inr (st\<lparr>conflicts := conflicts st @
                  [\<lparr>conflict_record = record, existingRecord = existing,
                    conflict_resolution = res\<rparr>]\<rparr>)
         else
           await (if winner res = ''client''
                  then await (update (row_id existing)
                                (js_spread_with record ''sync_version''
                                   (next_version (sync_version existing)))
                                (store st)) (\<lambda>u. Inr (snd u))
                  else Inr (store st)) (\<lambda>d.
             Inr (st\<lparr>store := d,
                     synced := synced st @
                       [\<lparr>entry_id = row_id existing, action = ''updated'',
                         entry_resolution = Some (winner res)\<rparr>]\<rparr>)))"
proof -
  from conflict_detectedD[OF assms] obtain v rest where
    v: "validateSyncMetadata record = Inr v" "isValid v"
    and r: "select_by_device_and_client_timestamp (store st)
              (js_get record ''deviceId'') (js_get record ''clientTimestamp'')
            = Inr (existing # rest)"
    and h: "hasConflict record (Some existing) = Inr True"
    by blast
  show ?thesis
    unfolding try_record_def by (simp add: v r h await_def)
qed

lemma ex_conflict_detected: "conflict_detected ex_start (ex_incoming s) ex_existing"
  by (simp add: conflict_detected_def validateSyncMetadata_def ex_incoming_def ex_start_def
        ex_store_def ex_existing_def ex_empty_store_def nullish_def
        select_by_device_and_client_timestamp_def await_def hasConflict_def js_of_int_col_def)

section \<open>What \<open>create\<close> stores\<close>

lemma create_InrD:
  assumes "create attendanceData d = Inr (r, d')"
  shows "d' = d\<lparr>attendance := attendance d @ [r]\<rparr>"
    and "clock_out r = None"
    and "clock_out_latitude r = None"
    and "clock_out_longitude r = None"
    and "status r = Some ''clocked_in''"
    and "row_id r = fresh_id (attendance d)"
    and "pg_decimal 100 ''clock_in_latitude''
           (js_or (js_get attendanceData ''clockInLatitude'') JNull) = Inr (clock_in_latitude r)"
    and "pg_varchar 255 ''device_id''
           (js_or (js_get attendanceData ''deviceId'') JNull) = Inr (device_id r)"
    and "pg_timestamptz ''client_timestamp''
           (js_or (js_get attendanceData ''clientTimestamp'') JNull) = Inr (client_timestamp r)"
    and "check_constraints r = Inr ()"
  using assms
  unfolding create_def Let_def await_Inr_iff
  by (auto simp: pg_varchar_def)

section \<open>What \<open>create\<close> raises\<close>












section \<open>The insert branch\<close>

lemma no_matchD:
  assumes "no_match st record"
  shows "\<exists>v. validateSyncMetadata record = Inr v \<and> isValid v"
    and "select_by_device_and_client_timestamp (store st)
           (js_get record ''deviceId'') (js_get record ''clientTimestamp'') = Inr []"
  using assms
  by (auto simp: no_match_def split: sum.splits list.splits)

lemma try_record_no_match:
  assumes "no_match st record"
  shows "try_record userId record st =
     await (create (attendanceData_of userId record) (store st)) (\<lambda>c.
       Inr (st\<lparr>store := snd c,
               synced := synced st @
                 [\<lparr>entry_id = row_id (fst c), action = ''created'',
                   entry_resolution = None\<rparr>]\<rparr>))"
proof -
  from no_matchD[OF assms] obtain v where
    v: "validateSyncMetadata record = Inr v" "isValid v"
    and r: "select_by_device_and_client_timestamp (store st)
              (js_get record ''deviceId'') (js_get record ''clientTimestamp'') = Inr []"
    by blast
  show ?thesis
    unfolding try_record_def by (simp add: v r)
qed

section \<open>One turn of the loop fills one bucket\<close>

lemma try_record_InrE:
  assumes "try_record userId record st = Inr st'"
  obtains (written) x d where "st' = st\<lparr>store := d, synced := synced st @ [x]\<rparr>"
    | (kept) x where "st' = st\<lparr>synced := synced st @ [x]\<rparr>"
    | (conflict) x where "st' = st\<lparr>conflicts := conflicts st @ [x]\<rparr>"
        and "conflict_record x = record"
    | (invalid) x where "st' = st\<lparr>errors := errors st @ [x]\<rparr>"
        and "error_record x = record"
  using assms
  unfolding try_record_def
  by (auto elim!: await_InrE split: if_splits list.splits)

lemma try_record_buckets:
  assumes "try_record userId record st = Inr st'"
  shows "(\<exists>x. synced st' = synced st @ [x] \<and> conflicts st' = conflicts st
              \<and> errors st' = errors st)
       \<or> (\<exists>x. conflicts st' = conflicts st @ [x] \<and> conflict_record x = record
              \<and> synced st' = synced st \<and> errors st' = errors st)
       \<or> (\<exists>x. errors st' = errors st @ [x] \<and> error_record x = record
              \<and> synced st' = synced st \<and> conflicts st' = conflicts st)"
  using assms
  by (cases rule: try_record_InrE) simp_all

lemma process_record_buckets:
  "(\<exists>x. synced (process_record userId record st) = synced st @ [x]
        \<and> conflicts (process_record userId record st) = conflicts st
        \<and> errors (process_record userId record st) = errors st)
   \<or> (\<exists>x. conflicts (process_record userId record st) = conflicts st @ [x]
        \<and> conflict_record x = record
        \<and> synced (process_record userId record st) = synced st
        \<and> errors (process_record userId record st) = errors st)
   \<or> (\<exists>x. errors (process_record userId record st) = errors st @ [x]
        \<and> error_record x = record
        \<and> synced (process_record userId record st) = synced st
        \<and> conflicts (process_record userId record st) = conflicts st)"
proof (cases "try_record userId record st")
  case (Inl e)
  then show ?thesis by (simp add: process_record_def)
next
  case (Inr st')
  then have "process_record userId record st = st'" by (simp add: process_record_def)
  with try_record_buckets[OF Inr] show ?thesis by simp
qed

lemma process_record_count:
  "length (synced (process_record userId record st))
     + length (conflicts (process_record userId record st))
     + length (errors (process_record userId record st))
   = Suc (length (synced st) + length (conflicts st) + length (errors st))"
  using process_record_buckets[of userId "record" st] by auto

lemma fold_process_record_count:
  "length (synced (fold (process_record userId) records st))
     + length (conflicts (fold (process_record userId) records st))
     + length (errors (fold (process_record userId) records st))
   = length (synced st) + length (conflicts st) + length (errors st) + length records"
proof (induction records arbitrary: st)
  case Nil
  show ?case by simp
next
  case (Cons r rs)
  show ?case
    using Cons.IH[of "process_record userId r st"] process_record_count[of userId r st]
    by simp
qed

section \<open>The dedup keys of the table\<close>


lemma dedup_keys_single:
  "dedup_keys [r] = (case dedup_key r of None \<Rightarrow> [] | Some k \<Rightarrow> [k])"
  by (simp add: dedup_keys_def)


lemma in_dedup_keys:
  "k \<in> set (dedup_keys rs) \<longleftrightarrow> (\<exists>r \<in> set rs. dedup_key r = Some k)"
proof (induction rs)
  case Nil
  show ?case by (simp add: dedup_keys_def)
next
  case (Cons r rs)
  have "dedup_keys (r # rs) = dedup_keys [r] @ dedup_keys rs"
    by (simp add: dedup_keys_def)
  then show ?case
    using Cons.IH by (cases "dedup_key r") (auto simp: dedup_keys_single)
qed

lemma dedup_unique_Nil: "dedup_unique []"
  by (simp add: dedup_unique_def dedup_keys_def)

lemma dedup_unique_Cons:
  "dedup_unique (r # rs) \<longleftrightarrow>
     (\<forall>k. dedup_key r = Some k \<longrightarrow> (\<forall>r' \<in> set rs. dedup_key r' \<noteq> Some k))
     \<and> dedup_unique rs"
proof -
  have "dedup_keys (r # rs) = dedup_keys [r] @ dedup_keys rs"
    by (simp add: dedup_keys_def)
  then show ?thesis
    by (cases "dedup_key r") (auto simp: dedup_unique_def dedup_keys_single in_dedup_keys)
qed



lemma update_keeps_clock_in:
  assumes "update attendanceId updates d = Inr u"
  shows "map clock_in (attendance (snd u)) = map clock_in (attendance d)"
proof -
  from assms obtain sets where
    "update_attendance sets attendanceId d = Inr u"
    by (auto simp: update_def Let_def split: if_splits)
  then obtain f where f: "set_clause sets = Inr f"
    and u: "attendance (snd u)
            = map (\<lambda>r. if row_id r = attendanceId then f r else r) (attendance d)"
    unfolding update_attendance_def Let_def
    by (auto elim!: await_InrE)
  from f have "clock_in (f r) = clock_in r" for r
    unfolding set_clause_def by (auto elim!: await_InrE)
  then show ?thesis
    unfolding u by (induction "attendance d") simp_all
qed









section \<open>Coordinates\<close>





section \<open>What \<open>update\<close> writes\<close>






section \<open>Claims\<close>




text \<open>
  C2. The code at a record of the wire format and an empty table: the first submission
  is not stored. \<open>validateSyncMetadata\<close> reads \<open>device_id\<close> and \<open>client_timestamp\<close>, which a
  record of the wire format (\<open>deviceId\<close>, \<open>clientTimestamp\<close>) does not have.
\<close>

theorem wire_record_fails_validation:
  "syncOfflineRecords ''u1'' [ex_wire ''d1''] ex_empty_store =
     (\<lparr>success = True, synced_count = 0, conflicts_count = 0, errors_count = 1,
       timestamp = 1704099600000,
       data = \<lparr>data_synced = [], data_conflicts = [],
                data_errors =
                  [\<lparr>error_record = ex_wire ''d1'',
                    error_messages =
                      [Text ''Missing device_id'', Text ''Missing client_timestamp'']\<rparr>]\<rparr>\<rparr>,
      ex_empty_store)"
  by code_simp

text \<open>
  C3, as the claim states it, fails: the client record \<open>ex_clocked_out\<close> and the stored row
  \<open>ex_existing\<close> have the same version and the same clock-in, only the client record has a
  clock-out, and \<open>hasConflict\<close> answers false.
\<close>

theorem clock_out_asymmetry_example:
  "js_get ex_clocked_out ''sync_version'' = js_of_int_col (sync_version ex_existing)
   \<and> date_getTime (js_get ex_clocked_out ''clock_in'') = Some (clock_in ex_existing)
   \<and> truthy (js_get ex_clocked_out ''clock_out'')
   \<and> clock_out ex_existing = None
   \<and> hasConflict ex_clocked_out (Some ex_existing) = Inr False"
  by (simp add: ex_clocked_out_def ex_existing_def hasConflict_def js_of_int_col_def
        nullish_def abs_diff_gt_def)

text \<open>
  C3, amended. When the versions are equal and the clock-ins are not more than 60 s
  apart, and exactly one of the two records has a clock-out, \<open>hasConflict\<close> answers false:
  it compares the clock-outs only when both records have one.
\<close>

theorem hasConflict_clock_out_asymmetry:
  assumes "\<not> nullish clientRecord"
    and "js_get clientRecord ''sync_version'' = js_of_int_col (sync_version serverRecord)"
    and "\<not> abs_diff_gt (date_getTime (js_get clientRecord ''clock_in''))
             (Some (clock_in serverRecord)) 60000"
    and "truthy (js_get clientRecord ''clock_out'') \<noteq> (clock_out serverRecord \<noteq> None)"
  shows "hasConflict clientRecord (Some serverRecord) = Inr False"
  using assms by (auto simp: hasConflict_def Let_def)

theorem hasConflict_clock_out_asymmetry_witness:
  "\<not> nullish ex_clocked_out
   \<and> js_get ex_clocked_out ''sync_version'' = js_of_int_col (sync_version ex_existing)
   \<and> \<not> abs_diff_gt (date_getTime (js_get ex_clocked_out ''clock_in''))
          (Some (clock_in ex_existing)) 60000
   \<and> truthy (js_get ex_clocked_out ''clock_out'') \<noteq> (clock_out ex_existing \<noteq> None)
   \<and> hasConflict ex_clocked_out (Some ex_existing) = Inr False"
proof -
  have h1: "\<not> nullish ex_clocked_out"
    by (simp add: ex_clocked_out_def nullish_def)
  have h2: "js_get ex_clocked_out ''sync_version'' = js_of_int_col (sync_version ex_existing)"
    by (simp add: ex_clocked_out_def ex_existing_def js_of_int_col_def)
  have h3: "\<not> abs_diff_gt (date_getTime (js_get ex_clocked_out ''clock_in''))
          (Some (clock_in ex_existing)) 60000"
    by (simp add: ex_clocked_out_def ex_existing_def abs_diff_gt_def)
  have h4: "truthy (js_get ex_clocked_out ''clock_out'') \<noteq> (clock_out ex_existing \<noteq> None)"
    by (simp add: ex_clocked_out_def ex_existing_def)
  from hasConflict_clock_out_asymmetry[OF h1 h2 h3 h4] h1 h2 h3 h4 show ?thesis by blast
qed

text \<open>
  C4. The code at a batch of three records of the wire format, the second without
  \<open>deviceId\<close>: none is stored, and all three are in the errors bucket, the two complete
  ones with the same field errors as the incomplete one.
\<close>

theorem wire_batch_all_errors:
  "snd (syncOfflineRecords ''u1'' [ex_wire ''d1'', ex_wire_no_device, ex_wire ''d3'']
          ex_empty_store) = ex_empty_store
   \<and> synced_count (fst (syncOfflineRecords ''u1''
        [ex_wire ''d1'', ex_wire_no_device, ex_wire ''d3''] ex_empty_store)) = 0
   \<and> errors_count (fst (syncOfflineRecords ''u1''
        [ex_wire ''d1'', ex_wire_no_device, ex_wire ''d3''] ex_empty_store)) = 3
   \<and> map error_messages (data_errors (data (fst (syncOfflineRecords ''u1''
        [ex_wire ''d1'', ex_wire_no_device, ex_wire ''d3''] ex_empty_store))))
     = [ [Text ''Missing device_id'', Text ''Missing client_timestamp''],
        [Text ''Missing device_id'', Text ''Missing client_timestamp''],
        [Text ''Missing device_id'', Text ''Missing client_timestamp''] ]"
  by code_simp



text \<open>
  C6. A turn of the loop that finds no stored row for the record inserts through
  \<open>create\<close>. Whenever the insert succeeds, the new row is appended with \<open>clock_out\<close>,
  \<open>clock_out_latitude\<close> and \<open>clock_out_longitude\<close> NULL and the status \<open>clocked_in\<close>, whatever
  the record carried as \<open>clockOut\<close>, \<open>clockOutLatitude\<close> and \<open>clockOutLongitude\<close>; the turn
  reports it as created.
\<close>

theorem created_row_has_no_clock_out:
  assumes "no_match st record"
    and "create (attendanceData_of userId record) (store st) = Inr (r, d)"
  shows "process_record userId record st =
           st\<lparr>store := d,
              synced := synced st @
                [\<lparr>entry_id = row_id r, action = ''created'', entry_resolution = None\<rparr>]\<rparr>
       \<and> attendance d = attendance (store st) @ [r]
       \<and> clock_out r = None
       \<and> clock_out_latitude r = None
       \<and> clock_out_longitude r = None
       \<and> status r = Some ''clocked_in''"
proof -
  have "process_record userId record st =
           st\<lparr>store := d,
              synced := synced st @
                [\<lparr>entry_id = row_id r, action = ''created'', entry_resolution = None\<rparr>]\<rparr>"
    by (simp add: process_record_def try_record_no_match[OF assms(1)] assms(2))
  moreover have "attendance d = attendance (store st) @ [r]"
    using create_InrD(1)[OF assms(2)] by simp
  ultimately show ?thesis
    using create_InrD(2-5)[OF assms(2)] by simp
qed

theorem created_row_has_no_clock_out_witness:
  "no_match ex_start ex_new_record
   \<and> js_get ex_new_record ''clockOut'' = JTime 1704128400000
   \<and> js_get ex_new_record ''clockOutLatitude'' = JNum (- 19540 / 10000)
   \<and> js_get ex_new_record ''clockOutLongitude'' = JNum (300610 / 10000)
   \<and> create (attendanceData_of ''u1'' ex_new_record) (store ex_start)
       = Inr (ex_created, ex_store\<lparr>attendance := [ex_existing, ex_created]\<rparr>)
   \<and> store (process_record ''u1'' ex_new_record ex_start)
       = ex_store\<lparr>attendance := [ex_existing, ex_created]\<rparr>
   \<and> clock_out ex_created = None
   \<and> clock_out_latitude ex_created = None
   \<and> clock_out_longitude ex_created = None
   \<and> status ex_created = Some ''clocked_in''"
proof -
  have h1: "no_match ex_start ex_new_record"
    by code_simp
  have h2: "create (attendanceData_of ''u1'' ex_new_record) (store ex_start)
       = Inr (ex_created, ex_store\<lparr>attendance := [ex_existing, ex_created]\<rparr>)"
    by code_simp
  have g: "js_get ex_new_record ''clockOut'' = JTime 1704128400000"
    "js_get ex_new_record ''clockOutLatitude'' = JNum (- 19540 / 10000)"
    "js_get ex_new_record ''clockOutLongitude'' = JNum (300610 / 10000)"
    by (simp_all add: ex_new_record_def)
  note t = created_row_has_no_clock_out[OF h1 h2]
  from t have "store (process_record ''u1'' ex_new_record ex_start)
       = ex_store\<lparr>attendance := [ex_existing, ex_created]\<rparr>"
    by simp
  with t h1 h2 g show ?thesis by simp
qed

text \<open>
  C7. Every strategy other than \<open>client_wins\<close> and \<open>manual\<close>, recognised (\<open>server_wins\<close>) or
  not, has the same outcome. \<open>resolveConflict\<close> returns the server record as \<open>resolved\<close>
  with winner \<open>server\<close>; and a turn of the loop that reaches it leaves the store as it
  was, writes nothing of the incoming record, and reports the stored row as updated
  with resolution \<open>server\<close>. (Only the text of \<open>reason\<close> tells the fallback from
  \<open>server_wins\<close>.)
\<close>

theorem unrecognized_strategy_server_wins:
  assumes "strategy \<noteq> JStr ''client_wins''" and "strategy \<noteq> JStr ''manual''"
  shows "(\<not> nullish clientRecord \<longrightarrow>
            (\<exists>res. resolveConflict clientRecord serverRecord strategy = Inr res
               \<and> resolved res = ServerRecord serverRecord \<and> winner res = ''server''))
       \<and> (conflict_detected st record existing
            \<and> js_get record ''conflictResolutionStrategy'' = strategy \<longrightarrow>
            process_record userId record st =
              st\<lparr>synced := synced st @
                    [\<lparr>entry_id = row_id existing, action = ''updated'',
                      entry_resolution = Some ''server''\<rparr>]\<rparr>)"
proof (intro conjI impI)
  assume "\<not> nullish clientRecord"
  with assms show "\<exists>res. resolveConflict clientRecord serverRecord strategy = Inr res
               \<and> resolved res = ServerRecord serverRecord \<and> winner res = ''server''"
    by (simp add: resolveConflict_def Let_def)
next
  assume a: "conflict_detected st record existing
            \<and> js_get record ''conflictResolutionStrategy'' = strategy"
  then have cd: "conflict_detected st record existing" by simp
  from conflict_detectedD(4)[OF cd] have n: "\<not> nullish record" .
  have s: "js_or strategy (JStr ''server_wins'') \<noteq> JStr ''client_wins''"
          "js_or strategy (JStr ''server_wins'') \<noteq> JStr ''manual''"
    using assms by (auto simp: js_or_def)
  show "process_record userId record st =
              st\<lparr>synced := synced st @
                    [\<lparr>entry_id = row_id existing, action = ''updated'',
                      entry_resolution = Some ''server''\<rparr>]\<rparr>"
    using a n s
    by (simp add: process_record_def try_record_conflict[OF cd] resolveConflict_def
          await_def Let_def)
qed

theorem unrecognized_strategy_server_wins_witness:
  "JStr ''bogus'' \<noteq> JStr ''client_wins'' \<and> JStr ''bogus'' \<noteq> JStr ''manual''
   \<and> conflict_detected ex_start (ex_incoming ''bogus'') ex_existing
   \<and> js_get (ex_incoming ''bogus'') ''conflictResolutionStrategy'' = JStr ''bogus''
   \<and> (\<exists>res. resolveConflict (ex_incoming ''bogus'') ex_existing (JStr ''bogus'') = Inr res
         \<and> resolved res = ServerRecord ex_existing \<and> winner res = ''server'')
   \<and> store (process_record ''u1'' (ex_incoming ''bogus'') ex_start) = ex_store
   \<and> synced (process_record ''u1'' (ex_incoming ''bogus'') ex_start) =
        [\<lparr>entry_id = 1, action = ''updated'', entry_resolution = Some ''server''\<rparr>]"
proof -
  have h1: "JStr ''bogus'' \<noteq> JStr ''client_wins''" and h2: "JStr ''bogus'' \<noteq> JStr ''manual''"
    by simp_all
  have h3: "conflict_detected ex_start (ex_incoming ''bogus'') ex_existing"
    by (rule ex_conflict_detected)
  have h4: "js_get (ex_incoming ''bogus'') ''conflictResolutionStrategy'' = JStr ''bogus''"
    by (simp add: ex_incoming_def)
  have h5: "\<not> nullish (ex_incoming ''bogus'')"
    by (simp add: ex_incoming_def nullish_def)
  note t = unrecognized_strategy_server_wins[OF h1 h2,
      of "ex_incoming ''bogus''" ex_existing ex_start "ex_incoming ''bogus''" ex_existing "''u1''"]
  from t h5 have a: "\<exists>res. resolveConflict (ex_incoming ''bogus'') ex_existing (JStr ''bogus'') = Inr res
         \<and> resolved res = ServerRecord ex_existing \<and> winner res = ''server''" by blast
  from t h3 h4 have b: "process_record ''u1'' (ex_incoming ''bogus'') ex_start =
      ex_start\<lparr>synced := synced ex_start @
         [\<lparr>entry_id = row_id ex_existing, action = ''updated'',
           entry_resolution = Some ''server''\<rparr>]\<rparr>" by blast
  have c: "store (process_record ''u1'' (ex_incoming ''bogus'') ex_start) = ex_store"
    unfolding b by (simp add: ex_start_def)
  have d: "synced (process_record ''u1'' (ex_incoming ''bogus'') ex_start) =
        [\<lparr>entry_id = 1, action = ''updated'', entry_resolution = Some ''server''\<rparr>]"
    unfolding b by (simp add: ex_start_def ex_existing_def)
  from h1 h2 h3 h4 a c d show ?thesis by blast
qed

text \<open>
  C8. For every batch and every store, the counters of the response are the lengths of
  its three arrays and add up to the length of the batch; and every turn of the loop,
  whatever the record and whatever is raised while it is processed, appends exactly one
  entry to exactly one of the three arrays and leaves the other two as they were (an
  entry of \<open>conflicts\<close> or \<open>errors\<close> holds the record itself). The loop is a \<open>fold\<close> over the
  whole batch: no turn ends it.
\<close>

theorem syncOfflineRecords_partitions_batch:
  "synced_count (fst (syncOfflineRecords userId records d))
     = length (data_synced (data (fst (syncOfflineRecords userId records d))))
   \<and> conflicts_count (fst (syncOfflineRecords userId records d))
     = length (data_conflicts (data (fst (syncOfflineRecords userId records d))))
   \<and> errors_count (fst (syncOfflineRecords userId records d))
     = length (data_errors (data (fst (syncOfflineRecords userId records d))))
   \<and> synced_count (fst (syncOfflineRecords userId records d))
       + conflicts_count (fst (syncOfflineRecords userId records d))
       + errors_count (fst (syncOfflineRecords userId records d))
     = length records
   \<and> ((\<exists>x. synced (process_record userId record st) = synced st @ [x]
          \<and> conflicts (process_record userId record st) = conflicts st
          \<and> errors (process_record userId record st) = errors st)
      \<or> (\<exists>x. conflicts (process_record userId record st) = conflicts st @ [x]
          \<and> conflict_record x = record
          \<and> synced (process_record userId record st) = synced st
          \<and> errors (process_record userId record st) = errors st)
      \<or> (\<exists>x. errors (process_record userId record st) = errors st @ [x]
          \<and> error_record x = record
          \<and> synced (process_record userId record st) = synced st
          \<and> conflicts (process_record userId record st) = conflicts st))"
proof -
  have "synced_count (fst (syncOfflineRecords userId records d))
       + conflicts_count (fst (syncOfflineRecords userId records d))
       + errors_count (fst (syncOfflineRecords userId records d))
     = length records"
    using fold_process_record_count[of userId records
            "\<lparr>store = d, synced = [], conflicts = [], errors = []\<rparr>"]
    by (simp add: syncOfflineRecords_def createSyncResponse_def Let_def)
  then show ?thesis
    using process_record_buckets[of userId "record" st]
    by (simp add: syncOfflineRecords_def createSyncResponse_def Let_def)
qed

theorem syncOfflineRecords_partitions_batch_witness:
  "synced_count (fst (syncOfflineRecords ''u1''
       [ex_new_record, JNull, ex_incoming ''manual'', ex_wire ''d1''] ex_store)) = 1
   \<and> conflicts_count (fst (syncOfflineRecords ''u1''
       [ex_new_record, JNull, ex_incoming ''manual'', ex_wire ''d1''] ex_store)) = 1
   \<and> errors_count (fst (syncOfflineRecords ''u1''
       [ex_new_record, JNull, ex_incoming ''manual'', ex_wire ''d1''] ex_store)) = 2
   \<and> synced_count (fst (syncOfflineRecords ''u1''
       [ex_new_record, JNull, ex_incoming ''manual'', ex_wire ''d1''] ex_store))
       + conflicts_count (fst (syncOfflineRecords ''u1''
       [ex_new_record, JNull, ex_incoming ''manual'', ex_wire ''d1''] ex_store))
       + errors_count (fst (syncOfflineRecords ''u1''
       [ex_new_record, JNull, ex_incoming ''manual'', ex_wire ''d1''] ex_store))
     = length [ex_new_record, JNull, ex_incoming ''manual'', ex_wire ''d1'']"
proof -
  have c: "synced_count (fst (syncOfflineRecords ''u1''
       [ex_new_record, JNull, ex_incoming ''manual'', ex_wire ''d1''] ex_store)) = 1
   \<and> conflicts_count (fst (syncOfflineRecords ''u1''
       [ex_new_record, JNull, ex_incoming ''manual'', ex_wire ''d1''] ex_store)) = 1
   \<and> errors_count (fst (syncOfflineRecords ''u1''
       [ex_new_record, JNull, ex_incoming ''manual'', ex_wire ''d1''] ex_store)) = 2"
    by code_simp
  from syncOfflineRecords_partitions_batch[of "''u1''"
      "[ex_new_record, JNull, ex_incoming ''manual'', ex_wire ''d1'']" ex_store]
  have "synced_count (fst (syncOfflineRecords ''u1''
       [ex_new_record, JNull, ex_incoming ''manual'', ex_wire ''d1''] ex_store))
       + conflicts_count (fst (syncOfflineRecords ''u1''
       [ex_new_record, JNull, ex_incoming ''manual'', ex_wire ''d1''] ex_store))
       + errors_count (fst (syncOfflineRecords ''u1''
       [ex_new_record, JNull, ex_incoming ''manual'', ex_wire ''d1''] ex_store))
     = length [ex_new_record, JNull, ex_incoming ''manual'', ex_wire ''d1'']"
    by blast
  with c show ?thesis by blast
qed






end
